theory Spec2Isabelle
  imports Main "HOL-Library.Word" "HOL-Library.AList"
begin

section \<open>The appointments service (src/main.py)\<close>

text \<open>
  The service is a set of HTTP handlers over one MongoDB collection. The handlers are
  embedded as functions that take the collection and return the response together with
  the collection afterwards. What the handlers call in the libraries (bson's ObjectId,
  pymongo's collection methods, pydantic's model validation) is not code of the
  repository; it is embedded here after the libraries' documented behaviour, as far as the
  handlers use it.
\<close>

subsection \<open>bson.ObjectId\<close>

text \<open>
  An ObjectId holds bytes, twelve of them when the driver generates it. \<open>ObjectId(s)\<close>
  for a string checks that \<open>len(s) == 24\<close> and takes \<open>bytes.fromhex(s)\<close>, raising
  InvalidId when either fails. \<open>bytes.fromhex\<close> reads two hexadecimal digits (either
  case) per byte and skips ASCII whitespace before a byte, so a string of 24 characters
  with whitespace in it gives an ObjectId of fewer than twelve bytes. \<open>str(oid)\<close> is two
  lower-case hexadecimal digits per byte. \<open>ObjectId()\<close> without an argument, which the
  driver calls for a document that has no \<open>_id\<close>, is twelve generated bytes (time stamp,
  random value, counter): here the twelve bytes of a 96-bit number, the high byte first.
\<close>

type_synonym ObjectId = "8 word list"

datatype error =
    HTTPException nat string
  | InvalidId
  | ValidationError
  | KeyError
  | TypeError
  | DuplicateKeyError

definition hex_val :: "char \<Rightarrow> nat option" where
  "hex_val c = map_of (zip ''0123456789abcdef'' [0..<16] @ zip ''ABCDEF'' [10..<16]) c"

definition hex_digit :: "nat \<Rightarrow> char" where
  "hex_digit n = ''0123456789abcdef'' ! n"

definition isspace :: "char \<Rightarrow> bool" where
  "isspace c \<longleftrightarrow> c \<in> set [CHR '' '', CHR 0x09, CHR 0x0A, CHR 0x0B, CHR 0x0C, CHR 0x0D]"

fun fromhex :: "string \<Rightarrow> 8 word list option" where
  "fromhex [] = Some []"
| "fromhex [c] = (if isspace c then Some [] else None)"
| "fromhex (c # c' # cs) =
     (if isspace c then fromhex (c' # cs)
      else (case hex_val c of
              None \<Rightarrow> None
            | Some hi \<Rightarrow>
                (case hex_val c' of
                   None \<Rightarrow> None
                 | Some lo \<Rightarrow>
                     (case fromhex cs of
                        None \<Rightarrow> None
                      | Some bs \<Rightarrow> Some (of_nat (16 * hi + lo) # bs)))))"

definition ObjectId :: "string \<Rightarrow> error + ObjectId" where
  "ObjectId s =
     (if length s = 24 then
        (case fromhex s of None \<Rightarrow> Inl InvalidId | Some bs \<Rightarrow> Inr bs)
      else Inl InvalidId)"

definition str_oid :: "ObjectId \<Rightarrow> string" where
  "str_oid oid =
     concat (map (\<lambda>b. [hex_digit (unat b div 16), hex_digit (unat b mod 16)]) oid)"

definition new_ObjectId :: "96 word \<Rightarrow> ObjectId" where
  "new_ObjectId g = map (\<lambda>i. ucast (drop_bit (8 * i) g)) (rev [0..<12])"

subsection \<open>Python values and dictionaries\<close>

text \<open>
  The values the service stores and passes are \<open>None\<close>, strings and ObjectIds. A
  Python dict, and a document of the collection, is an association list in insertion
  order; \<open>d[k] = v\<close> keeps the place of an existing key and appends a new one, which is
  \<open>AList.update\<close>.
\<close>

datatype pyval = PNone | PStr string | POid ObjectId

type_synonym document = "(string \<times> pyval) list"

fun py_str :: "pyval \<Rightarrow> string" where
  "py_str PNone = ''None''"
| "py_str (PStr s) = s"
| "py_str (POid oid) = str_oid oid"

definition bind_err :: "error + 'a \<Rightarrow> ('a \<Rightarrow> error + 'b) \<Rightarrow> error + 'b" where
  "bind_err r f = (case r of Inl e \<Rightarrow> Inl e | Inr x \<Rightarrow> f x)"

subsection \<open>The pydantic models (lines 43--61)\<close>

record AppointmentBase =
  name :: string
  email :: string
  service :: string
  date :: string
  time :: string
  topic :: string
  status :: "string option"
  zoom_link :: "string option"

type_synonym AppointmentCreate = AppointmentBase

record Appointment = AppointmentBase +
  id' :: string

text \<open>
  Validation of keyword arguments or of a request body against a model. A field of type
  \<open>str\<close> is required and must be a string; a field of type \<open>Optional[str]\<close> takes
  its default when the key is missing, and \<open>None\<close> or a string when it is present.
\<close>

definition str_field :: "document \<Rightarrow> string \<Rightarrow> error + string" where
  "str_field d k =
     (case map_of d k of Some (PStr s) \<Rightarrow> Inr s | _ \<Rightarrow> Inl ValidationError)"

definition optional_str_field ::
    "document \<Rightarrow> string \<Rightarrow> string option \<Rightarrow> error + string option" where
  "optional_str_field d k dflt =
     (case map_of d k of
        None \<Rightarrow> Inr dflt
      | Some PNone \<Rightarrow> Inr None
      | Some (PStr s) \<Rightarrow> Inr (Some s)
      | Some (POid _) \<Rightarrow> Inl ValidationError)"

definition AppointmentCreate_validate :: "document \<Rightarrow> error + AppointmentCreate" where
  "AppointmentCreate_validate d =
     bind_err (str_field d ''name'') (\<lambda>n.
     bind_err (str_field d ''email'') (\<lambda>e.
     bind_err (str_field d ''service'') (\<lambda>sv.
     bind_err (str_field d ''date'') (\<lambda>dt.
     bind_err (str_field d ''time'') (\<lambda>tm.
     bind_err (str_field d ''topic'') (\<lambda>tp.
     bind_err (optional_str_field d ''status'' (Some ''Pending'')) (\<lambda>st.
     bind_err (optional_str_field d ''zoom_link'' None) (\<lambda>z.
       Inr \<lparr>name = n, email = e, service = sv, date = dt, time = tm, topic = tp,
            status = st, zoom_link = z\<rparr>))))))))"

text \<open>
  \<open>Appointment\<close> adds the field \<open>id\<close> with the alias \<open>_id\<close>; with
  \<open>allow_population_by_field_name\<close> the field's own name is read when the alias is
  missing.
\<close>

definition Appointment_validate :: "document \<Rightarrow> error + Appointment" where
  "Appointment_validate d =
     bind_err (AppointmentCreate_validate d) (\<lambda>b.
     bind_err (case map_of d ''_id'' of
                 None \<Rightarrow> str_field d ''id''
               | Some _ \<Rightarrow> str_field d ''_id'') (\<lambda>i.
       Inr \<lparr>name = name b, email = email b, service = service b, date = date b,
            time = time b, topic = topic b, status = status b,
            zoom_link = zoom_link b, id' = i\<rparr>))"

definition optional_val :: "string option \<Rightarrow> pyval" where
  "optional_val v = (case v of None \<Rightarrow> PNone | Some s \<Rightarrow> PStr s)"

definition dict :: "AppointmentCreate \<Rightarrow> document" where
  "dict a =
     [(''name'', PStr (name a)), (''email'', PStr (email a)),
      (''service'', PStr (service a)), (''date'', PStr (date a)),
      (''time'', PStr (time a)), (''topic'', PStr (topic a)),
      (''status'', optional_val (status a)),
      (''zoom_link'', optional_val (zoom_link a))]"

subsection \<open>The collection (pymongo)\<close>

text \<open>
  The collection is the list of its documents in natural order. A filter
  \<open>{"_id": oid}\<close> selects the documents whose \<open>_id\<close> is that ObjectId;
  \<open>find_one\<close>, \<open>update_one\<close> and \<open>delete_one\<close> act on the first of them.
  \<open>update_one\<close> reports in \<open>modified_count\<close> whether the document it matched
  differs after the update: a \<open>$set\<close> of the values the document already has matches and
  modifies nothing. \<open>insert_one\<close> gives a document without \<open>_id\<close> the ObjectId the
  driver generates (here the argument \<open>new_id\<close>), writes it into the caller's dict, and
  raises DuplicateKeyError when the collection has that \<open>_id\<close> already.
\<close>

type_synonym collection = "document list"

record UpdateResult =
  matched_count :: nat
  modified_count :: nat

definition has_id :: "ObjectId \<Rightarrow> document \<Rightarrow> bool" where
  "has_id oid d = (map_of d ''_id'' = Some (POid oid))"


definition find_one :: "collection \<Rightarrow> ObjectId \<Rightarrow> document option" where
  "find_one c oid = List.find (has_id oid) c"

definition op_set :: "document \<Rightarrow> document \<Rightarrow> document" where
  "op_set upd d = fold (\<lambda>(k, v). AList.update k v) upd d"

fun update_one :: "collection \<Rightarrow> ObjectId \<Rightarrow> document \<Rightarrow> UpdateResult \<times> collection" where
  "update_one [] oid upd = (\<lparr>matched_count = 0, modified_count = 0\<rparr>, [])"
| "update_one (d # c) oid upd =
     (if has_id oid d then
        (\<lparr>matched_count = 1, modified_count = (if op_set upd d = d then 0 else 1)\<rparr>,
         op_set upd d # c)
      else (case update_one c oid upd of (r, c') \<Rightarrow> (r, d # c')))"

fun delete_one :: "collection \<Rightarrow> ObjectId \<Rightarrow> nat \<times> collection" where
  "delete_one [] oid = (0, [])"
| "delete_one (d # c) oid =
     (if has_id oid d then (1, c)
      else (case delete_one c oid of (n, c') \<Rightarrow> (n, d # c')))"

definition insert_one ::
    "collection \<Rightarrow> ObjectId \<Rightarrow> document \<Rightarrow> error + (pyval \<times> document \<times> collection)" where
  "insert_one c new_id doc =
     (let inserted_id = (case map_of doc ''_id'' of None \<Rightarrow> POid new_id | Some v \<Rightarrow> v);
          doc' = (case map_of doc ''_id'' of
                    None \<Rightarrow> doc @ [(''_id'', POid new_id)]
                  | Some _ \<Rightarrow> doc)
      in if list_ex (\<lambda>d. map_of d ''_id'' = Some inserted_id) c
         then Inl DuplicateKeyError
         else Inr (inserted_id, doc', c @ [doc']))"

subsection \<open>The handlers (lines 63--144)\<close>

abbreviation NotFound :: error where
  "NotFound \<equiv> HTTPException 404 ''Appointment not found''"

text \<open>A bare \<open>except:\<close> that raises the 404 for whatever the \<open>try\<close> block raised.\<close>

definition except_404 :: "error + 'a \<Rightarrow> error + 'a" where
  "except_404 r = (case r of Inl _ \<Rightarrow> Inl NotFound | Inr x \<Rightarrow> Inr x)"

definition document_to_appointment :: "document \<Rightarrow> error + Appointment" where
  "document_to_appointment doc =
     (case map_of doc ''_id'' of
        None \<Rightarrow> Inl KeyError
      | Some v \<Rightarrow> Appointment_validate (AList.update ''_id'' (PStr (py_str v)) doc))"

definition create_appointment ::
    "collection \<Rightarrow> ObjectId \<Rightarrow> AppointmentCreate \<Rightarrow> (error + Appointment) \<times> collection" where
  "create_appointment c new_id appointment =
     (let doc = dict appointment in
      case insert_one c new_id doc of
        Inl e \<Rightarrow> (Inl e, c)
      | Inr (inserted_id, doc', c') \<Rightarrow>
          (Appointment_validate (AList.update ''_id'' (PStr (py_str inserted_id)) doc'), c'))"



definition get_appointment :: "collection \<Rightarrow> string \<Rightarrow> error + Appointment" where
  "get_appointment c appointment_id =
     except_404
       (bind_err (ObjectId appointment_id) (\<lambda>oid.
          case find_one c oid of
            None \<Rightarrow> Inl NotFound
          | Some doc \<Rightarrow> document_to_appointment doc))"

definition update_appointment ::
    "collection \<Rightarrow> string \<Rightarrow> AppointmentCreate \<Rightarrow> (error + Appointment) \<times> collection" where
  "update_appointment c appointment_id appointment =
     (let doc = dict appointment in
      case ObjectId appointment_id of
        Inl _ \<Rightarrow> (Inl NotFound, c)
      | Inr oid \<Rightarrow>
          (case update_one c oid doc of (result, c') \<Rightarrow>
             if modified_count result = 0 then (Inl NotFound, c')
             else (except_404
                     (case find_one c' oid of
                        None \<Rightarrow> Inl TypeError
                      | Some updated_doc \<Rightarrow> document_to_appointment updated_doc), c')))"

definition delete_appointment :: "collection \<Rightarrow> string \<Rightarrow> (error + string) \<times> collection" where
  "delete_appointment c appointment_id =
     (case ObjectId appointment_id of
        Inl _ \<Rightarrow> (Inl NotFound, c)
      | Inr oid \<Rightarrow>
          (case delete_one c oid of (deleted_count, c') \<Rightarrow>
             if deleted_count = 0 then (Inl NotFound, c')
             else (Inr ''Appointment deleted successfully'', c')))"

definition approve_appointment :: "collection \<Rightarrow> string \<Rightarrow> (error + string) \<times> collection" where
  "approve_appointment c appointment_id =
     (case ObjectId appointment_id of
        Inl _ \<Rightarrow> (Inl NotFound, c)
      | Inr oid \<Rightarrow>
          (case update_one c oid [(''status'', PStr ''Approved'')] of (result, c') \<Rightarrow>
             if modified_count result = 0 then (Inl NotFound, c')
             else (Inr ''Appointment approved successfully'', c')))"

definition set_zoom_link ::
    "collection \<Rightarrow> string \<Rightarrow> string \<Rightarrow> (error + string) \<times> collection" where
  "set_zoom_link c appointment_id zoom_link_arg =
     (case ObjectId appointment_id of
        Inl _ \<Rightarrow> (Inl NotFound, c)
      | Inr oid \<Rightarrow>
          (case update_one c oid [(''zoom_link'', PStr zoom_link_arg)] of (result, c') \<Rightarrow>
             if modified_count result = 0 then (Inl NotFound, c')
             else (Inr ''Zoom link added successfully'', c')))"

subsection \<open>Requests in sequence\<close>

text \<open>
  The value of \<open>result\<close> at line 101 of \<open>update_appointment\<close>: what the store
  reported for the update, and nothing when \<open>ObjectId(appointment_id)\<close> raised before the
  store was called.
\<close>

definition update_result ::
    "collection \<Rightarrow> string \<Rightarrow> AppointmentCreate \<Rightarrow> UpdateResult option" where
  "update_result c appointment_id appointment =
     (case ObjectId appointment_id of
        Inl _ \<Rightarrow> None
      | Inr oid \<Rightarrow> Some (fst (update_one c oid (dict appointment))))"

text \<open>
  The same for \<open>result\<close> at line 127 of \<open>approve_appointment\<close> and at line 140 of
  \<open>set_zoom_link\<close>.
\<close>

definition approve_result :: "collection \<Rightarrow> string \<Rightarrow> UpdateResult option" where
  "approve_result c appointment_id =
     (case ObjectId appointment_id of
        Inl _ \<Rightarrow> None
      | Inr oid \<Rightarrow> Some (fst (update_one c oid [(''status'', PStr ''Approved'')])))"



text \<open>
  The requests that write to the collection, as the routes of lines 69--144 dispatch them,
  and the collection after a request.
\<close>

datatype request =
    Create ObjectId AppointmentCreate
  | Update string AppointmentCreate
  | Delete string
  | Approve string
  | SetZoomLink string string

fun apply_request :: "collection \<Rightarrow> request \<Rightarrow> collection" where
  "apply_request c (Create new_id appointment) = snd (create_appointment c new_id appointment)"
| "apply_request c (Update appointment_id appointment) =
     snd (update_appointment c appointment_id appointment)"
| "apply_request c (Delete appointment_id) = snd (delete_appointment c appointment_id)"
| "apply_request c (Approve appointment_id) = snd (approve_appointment c appointment_id)"
| "apply_request c (SetZoomLink appointment_id link) =
     snd (set_zoom_link c appointment_id link)"

text \<open>The eight fields of a response equal those of a payload.\<close>

definition same_fields :: "Appointment \<Rightarrow> AppointmentCreate \<Rightarrow> bool" where
  "same_fields a p \<longleftrightarrow>
     name a = name p \<and> email a = email p \<and> service a = service p \<and> date a = date p \<and>
     time a = time p \<and> topic a = topic p \<and> status a = status p \<and>
     zoom_link a = zoom_link p"

subsection \<open>Example data\<close>

text \<open>
  The request of the specification's example, a second payload, two ObjectIds as the
  driver generates them, and a document that is not an appointment.
\<close>

definition example_id :: ObjectId where
  "example_id = [0, 0, 0, 0, 0, 0, 0, 0, 0, 0, 0, 0x2a]"

definition other_id :: ObjectId where
  "other_id = [0, 0, 0, 0, 0, 0, 0, 0, 0, 0, 0, 0x2b]"


definition example_body :: document where
  "example_body =
     [(''name'', PStr ''A''), (''email'', PStr ''a@x.com''), (''service'', PStr ''Consult''),
      (''date'', PStr ''2024-01-01''), (''time'', PStr ''10:00''), (''topic'', PStr ''Intro'')]"

definition example_payload :: AppointmentCreate where
  "example_payload =
     \<lparr>name = ''A'', email = ''a@x.com'', service = ''Consult'', date = ''2024-01-01'',
      time = ''10:00'', topic = ''Intro'', status = Some ''Pending'', zoom_link = None\<rparr>"

definition example_appointment :: Appointment where
  "example_appointment =
     \<lparr>name = ''A'', email = ''a@x.com'', service = ''Consult'', date = ''2024-01-01'',
      time = ''10:00'', topic = ''Intro'', status = Some ''Pending'', zoom_link = None,
      id' = ''00000000000000000000002a''\<rparr>"

definition example_doc :: document where
  "example_doc = dict example_payload @ [(''_id'', POid example_id)]"

definition example_change :: AppointmentCreate where
  "example_change =
     \<lparr>name = ''B'', email = ''b@x.com'', service = ''Review'', date = ''2024-02-02'',
      time = ''11:30'', topic = ''Plan'', status = Some ''Approved'',
      zoom_link = Some ''https://zoom.us/j/1''\<rparr>"

definition example_changed :: Appointment where
  "example_changed =
     \<lparr>name = ''B'', email = ''b@x.com'', service = ''Review'', date = ''2024-02-02'',
      time = ''11:30'', topic = ''Plan'', status = Some ''Approved'',
      zoom_link = Some ''https://zoom.us/j/1'', id' = ''00000000000000000000002a''\<rparr>"

subsection \<open>Facts about ObjectId\<close>

lemma hex_digits_all:
  "list_all (\<lambda>n. hex_val (hex_digit n) = Some n \<and> \<not> isspace (hex_digit n)) [0..<16]"
  by code_simp

lemma hex_val_hex_digit: "n < 16 \<Longrightarrow> hex_val (hex_digit n) = Some n"
  using hex_digits_all by (simp add: list_all_iff)

lemma not_isspace_hex_digit: "n < 16 \<Longrightarrow> \<not> isspace (hex_digit n)"
  using hex_digits_all by (simp add: list_all_iff)

lemma byte_nibbles: "unat (b :: 8 word) div 16 < 16" "unat b mod 16 < 16"
proof -
  have "unat b < 2 ^ LENGTH(8)"
    by (rule unsigned_less)
  then show "unat b div 16 < 16" "unat b mod 16 < 16"
    by simp_all
qed

lemma fromhex_str_oid: "fromhex (str_oid oid) = Some oid"
proof (induction oid)
  case Nil
  then show ?case by (simp add: str_oid_def)
next
  case (Cons b oid)
  have "of_nat (16 * (unat b div 16) + unat b mod 16) = b"
    by simp
  then show ?case
    using Cons
    by (simp add: str_oid_def hex_val_hex_digit not_isspace_hex_digit byte_nibbles)
qed

lemma length_str_oid: "length (str_oid oid) = 2 * length oid"
  by (induction oid) (simp_all add: str_oid_def)

lemma ObjectId_str_oid: "length oid = 12 \<Longrightarrow> ObjectId (str_oid oid) = Inr oid"
  by (simp add: ObjectId_def length_str_oid fromhex_str_oid)

lemma length_new_ObjectId: "length (new_ObjectId g) = 12"
  by (simp add: new_ObjectId_def)

subsection \<open>Facts about the collection and the models\<close>

lemma map_of_op_set: "map_of (op_set upd d) = map_of d ++ map_of (rev upd)"
  unfolding op_set_def
proof (induction upd arbitrary: d)
  case Nil
  then show ?case by simp
next
  case (Cons x upd)
  obtain k v where x: "x = (k, v)" by (cases x)
  show ?case
    by (simp add: x Cons.IH update_conv' map_add_def fun_eq_iff split: option.splits)
qed

lemma op_set_idem:
  "(\<And>k v. (k, v) \<in> set upd \<Longrightarrow> map_of d k = Some v) \<Longrightarrow> op_set upd d = d"
  unfolding op_set_def
proof (induction upd arbitrary: d)
  case Nil
  then show ?case by simp
next
  case (Cons x upd)
  obtain k v where x: "x = (k, v)" by (cases x)
  have "AList.update k v d = d"
    using Cons.prems [of k v] by (simp add: x update_triv)
  then show ?case
    using Cons by (simp add: x)
qed

lemma has_id_op_set:
  "map_of upd ''_id'' = None \<Longrightarrow> has_id oid (op_set upd d) = has_id oid d"
proof -
  assume "map_of upd ''_id'' = None"
  then have "map_of (rev upd) ''_id'' = None"
    by (simp add: map_of_eq_None_iff)
  then show ?thesis
    by (simp add: has_id_def map_of_op_set map_add_def)
qed

lemma find_one_None_iff: "find_one c oid = None \<longleftrightarrow> (\<forall>d\<in>set c. \<not> has_id oid d)"
  by (auto simp: find_one_def find_None_iff)

lemma find_one_Some_split:
  "find_one c oid = Some d \<longleftrightarrow>
     (\<exists>pre post. c = pre @ d # post \<and> has_id oid d \<and> (\<forall>x\<in>set pre. \<not> has_id oid x))"
proof
  assume "find_one c oid = Some d"
  then obtain i where i: "i < length c" "has_id oid (c ! i)" "d = c ! i"
      "\<forall>j<i. \<not> has_id oid (c ! j)"
    by (auto simp: find_one_def find_Some_iff)
  have "c = take i c @ d # drop (Suc i) c"
    using i by (simp add: id_take_nth_drop)
  moreover have "\<forall>x\<in>set (take i c). \<not> has_id oid x"
    using i by (auto simp: in_set_conv_nth)
  ultimately show "\<exists>pre post. c = pre @ d # post \<and> has_id oid d \<and> (\<forall>x\<in>set pre. \<not> has_id oid x)"
    using i by blast
next
  assume "\<exists>pre post. c = pre @ d # post \<and> has_id oid d \<and> (\<forall>x\<in>set pre. \<not> has_id oid x)"
  then obtain pre post where c: "c = pre @ d # post" "has_id oid d" "\<forall>x\<in>set pre. \<not> has_id oid x"
    by blast
  show "find_one c oid = Some d"
    unfolding c(1) find_one_def using c(2,3)
    by (induction pre) auto
qed

lemma update_one_append:
  "\<forall>x\<in>set pre. \<not> has_id oid x \<Longrightarrow> has_id oid d \<Longrightarrow>
   update_one (pre @ d # post) oid upd =
     (\<lparr>matched_count = 1, modified_count = (if op_set upd d = d then 0 else 1)\<rparr>,
      pre @ op_set upd d # post)"
  by (induction pre) auto

lemma update_one_no_match:
  "find_one c oid = None \<Longrightarrow>
   update_one c oid upd = (\<lparr>matched_count = 0, modified_count = 0\<rparr>, c)"
  unfolding find_one_None_iff
  by (induction c) auto

lemma delete_one_append:
  "\<forall>x\<in>set pre. \<not> has_id oid x \<Longrightarrow> has_id oid d \<Longrightarrow>
   delete_one (pre @ d # post) oid = (1, pre @ post)"
  by (induction pre) auto

lemma delete_one_no_match:
  "find_one c oid = None \<Longrightarrow> delete_one c oid = (0, c)"
  unfolding find_one_None_iff
  by (induction c) auto


lemma map_of_op_set_dict:
  "map_of (op_set (dict p) d) =
     (map_of d)(''name'' \<mapsto> PStr (name p), ''email'' \<mapsto> PStr (email p),
        ''service'' \<mapsto> PStr (service p), ''date'' \<mapsto> PStr (date p),
        ''time'' \<mapsto> PStr (time p), ''topic'' \<mapsto> PStr (topic p),
        ''status'' \<mapsto> optional_val (status p),
        ''zoom_link'' \<mapsto> optional_val (zoom_link p))"
  by (simp add: op_set_def dict_def update_conv')

lemma map_of_dict_id: "map_of (dict p) ''_id'' = None"
  by (simp add: dict_def)

lemma optional_str_field_val:
  "map_of d k = Some (optional_val v) \<Longrightarrow> optional_str_field d k dflt = Inr v"
  by (cases v) (simp_all add: optional_str_field_def optional_val_def)

lemma str_field_val: "map_of d k = Some (PStr s) \<Longrightarrow> str_field d k = Inr s"
  by (simp add: str_field_def)

lemma AppointmentCreate_validate_fields:
  assumes "map_of d ''name'' = Some (PStr (name p))"
      and "map_of d ''email'' = Some (PStr (email p))"
      and "map_of d ''service'' = Some (PStr (service p))"
      and "map_of d ''date'' = Some (PStr (date p))"
      and "map_of d ''time'' = Some (PStr (time p))"
      and "map_of d ''topic'' = Some (PStr (topic p))"
      and "map_of d ''status'' = Some (optional_val (status p))"
      and "map_of d ''zoom_link'' = Some (optional_val (zoom_link p))"
  shows "AppointmentCreate_validate d = Inr p"
  using assms
  by (simp add: AppointmentCreate_validate_def bind_err_def str_field_val
      optional_str_field_val)

lemma Appointment_validate_fields:
  assumes "AppointmentCreate_validate d = Inr p"
      and "map_of d ''_id'' = Some (PStr i)"
  shows "\<exists>a. Appointment_validate d = Inr a \<and> same_fields a p \<and> id' a = i"
  using assms
  by (simp add: Appointment_validate_def bind_err_def str_field_val same_fields_def)

lemma document_to_appointment_op_set_dict:
  assumes "has_id oid d"
  shows "\<exists>a. document_to_appointment (op_set (dict p) d) = Inr a \<and> same_fields a p
           \<and> id' a = str_oid oid"
proof -
  let ?d' = "op_set (dict p) d"
  let ?e = "AList.update ''_id'' (PStr (str_oid oid)) ?d'"
  have id: "map_of ?d' ''_id'' = Some (POid oid)"
    using assms by (simp add: map_of_op_set_dict has_id_def)
  have "AppointmentCreate_validate ?e = Inr p"
    by (rule AppointmentCreate_validate_fields)
       (simp_all add: update_conv' map_of_op_set_dict)
  moreover have "map_of ?e ''_id'' = Some (PStr (str_oid oid))"
    by (simp add: update_conv')
  ultimately obtain a where "Appointment_validate ?e = Inr a" "same_fields a p"
      "id' a = str_oid oid"
    using Appointment_validate_fields by blast
  then show ?thesis
    by (auto simp: document_to_appointment_def id)
qed

lemma ObjectId_error: "ObjectId s = Inl e \<Longrightarrow> e = InvalidId"
  by (auto simp: ObjectId_def split: if_splits option.splits)

lemma update_one_modified_count:
  "modified_count (fst (update_one c oid upd)) =
     (case find_one c oid of None \<Rightarrow> 0 | Some d \<Rightarrow> if op_set upd d = d then 0 else 1)"
proof (cases "find_one c oid")
  case None
  then show ?thesis by (simp add: update_one_no_match)
next
  case (Some d)
  then obtain pre post where "c = pre @ d # post" "has_id oid d" "\<forall>x\<in>set pre. \<not> has_id oid x"
    by (auto simp: find_one_Some_split)
  then show ?thesis
    using Some by (simp add: update_one_append)
qed

lemma update_appointment_existing:
  assumes "ObjectId aid = Inr oid" and "find_one c oid = Some d"
  shows "\<exists>pre post a. c = pre @ d # post \<and>
           update_one c oid (dict p) =
             (\<lparr>matched_count = 1,
               modified_count = (if op_set (dict p) d = d then 0 else 1)\<rparr>,
              pre @ op_set (dict p) d # post) \<and>
           update_appointment c aid p =
             (if op_set (dict p) d = d then Inl NotFound else Inr a,
              pre @ op_set (dict p) d # post) \<and>
           find_one (pre @ op_set (dict p) d # post) oid = Some (op_set (dict p) d) \<and>
           same_fields a p \<and> id' a = str_oid oid"
proof -
  let ?d' = "op_set (dict p) d"
  obtain pre post where c: "c = pre @ d # post" and d: "has_id oid d"
      and pre: "\<forall>x\<in>set pre. \<not> has_id oid x"
    using assms(2) by (auto simp: find_one_Some_split)
  have d': "has_id oid ?d'"
    using d by (simp add: has_id_op_set map_of_dict_id)
  have upd: "update_one c oid (dict p) =
      (\<lparr>matched_count = 1, modified_count = (if ?d' = d then 0 else 1)\<rparr>, pre @ ?d' # post)"
    unfolding c using pre d by (rule update_one_append)
  have found: "find_one (pre @ ?d' # post) oid = Some ?d'"
    using pre d' by (auto simp: find_one_Some_split)
  obtain a where a: "document_to_appointment ?d' = Inr a" "same_fields a p"
      "id' a = str_oid oid"
    using document_to_appointment_op_set_dict [OF d] by blast
  have "update_appointment c aid p =
      (if ?d' = d then Inl NotFound else Inr a, pre @ ?d' # post)"
    using assms(1) by (simp add: update_appointment_def upd found a(1) except_404_def)
  then show ?thesis
    using c upd found a(2,3) by blast
qed

lemma update_appointment_absent:
  assumes "\<forall>oid. ObjectId aid = Inr oid \<longrightarrow> find_one c oid = None"
  shows "update_appointment c aid p = (Inl NotFound, c)"
proof (cases "ObjectId aid")
  case (Inl e)
  then show ?thesis by (simp add: update_appointment_def)
next
  case (Inr oid)
  then show ?thesis
    using assms by (simp add: update_appointment_def update_one_no_match)
qed

lemma insert_one_fresh:
  assumes "find_one c new_id = None"
  shows "insert_one c new_id (dict p) =
           Inr (POid new_id, dict p @ [(''_id'', POid new_id)],
                c @ [dict p @ [(''_id'', POid new_id)]])"
proof -
  have "\<not> list_ex (\<lambda>d. map_of d ''_id'' = Some (POid new_id)) c"
    using assms by (simp add: find_one_None_iff has_id_def list_ex_iff)
  then show ?thesis
    by (simp add: insert_one_def map_of_dict_id Let_def)
qed

lemma insert_one_dict_cases:
  "insert_one c new_id (dict p) = Inl DuplicateKeyError \<and> find_one c new_id \<noteq> None \<or>
   insert_one c new_id (dict p) =
     Inr (POid new_id, dict p @ [(''_id'', POid new_id)],
          c @ [dict p @ [(''_id'', POid new_id)]]) \<and> find_one c new_id = None"
proof (cases "find_one c new_id")
  case None
  then show ?thesis by (simp add: insert_one_fresh)
next
  case (Some d)
  then have "list_ex (\<lambda>d. map_of d ''_id'' = Some (POid new_id)) c"
    by (auto simp: find_one_Some_split has_id_def list_ex_iff)
  then show ?thesis
    using Some by (simp add: insert_one_def map_of_dict_id Let_def)
qed

lemma map_of_dict_fields:
  "map_of (dict p) ''name'' = Some (PStr (name p))"
  "map_of (dict p) ''email'' = Some (PStr (email p))"
  "map_of (dict p) ''service'' = Some (PStr (service p))"
  "map_of (dict p) ''date'' = Some (PStr (date p))"
  "map_of (dict p) ''time'' = Some (PStr (time p))"
  "map_of (dict p) ''topic'' = Some (PStr (topic p))"
  "map_of (dict p) ''status'' = Some (optional_val (status p))"
  "map_of (dict p) ''zoom_link'' = Some (optional_val (zoom_link p))"
  by (simp_all add: dict_def)

lemma document_to_appointment_created:
  "\<exists>a. document_to_appointment (dict p @ [(''_id'', POid new_id)]) = Inr a \<and>
       Appointment_validate
         (AList.update ''_id'' (PStr (str_oid new_id)) (dict p @ [(''_id'', POid new_id)]))
         = Inr a \<and>
       same_fields a p \<and> id' a = str_oid new_id"
proof -
  let ?doc = "dict p @ [(''_id'', POid new_id)]"
  let ?e = "AList.update ''_id'' (PStr (str_oid new_id)) ?doc"
  have id: "map_of ?doc ''_id'' = Some (POid new_id)"
    by (simp add: map_add_def map_of_dict_id)
  have "AppointmentCreate_validate ?e = Inr p"
    by (rule AppointmentCreate_validate_fields)
       (simp_all add: update_conv' map_add_def map_of_dict_fields)
  moreover have "map_of ?e ''_id'' = Some (PStr (str_oid new_id))"
    by (simp add: update_conv')
  ultimately obtain a where "Appointment_validate ?e = Inr a" "same_fields a p"
      "id' a = str_oid new_id"
    using Appointment_validate_fields by blast
  then show ?thesis
    unfolding document_to_appointment_def id by auto
qed

lemma create_appointment_fresh:
  assumes "find_one c new_id = None"
  shows "\<exists>a. create_appointment c new_id p = (Inr a, c @ [dict p @ [(''_id'', POid new_id)]]) \<and>
             document_to_appointment (dict p @ [(''_id'', POid new_id)]) = Inr a \<and>
             same_fields a p \<and> id' a = str_oid new_id"
  using document_to_appointment_created [of p new_id]
  by (auto simp: create_appointment_def insert_one_fresh [OF assms])

lemma create_appointment_duplicate:
  assumes "find_one c new_id \<noteq> None"
  shows "create_appointment c new_id p = (Inl DuplicateKeyError, c)"
  using assms insert_one_dict_cases [of c new_id p]
  by (auto simp: create_appointment_def)

lemma find_one_snoc:
  "find_one c oid = None \<Longrightarrow> has_id oid d \<Longrightarrow> find_one (c @ [d]) oid = Some d"
  by (auto simp: find_one_Some_split find_one_None_iff)

lemma op_set_single: "op_set [(k, v)] d = AList.update k v d"
  by (simp add: op_set_def)

lemma update_one_single_field:
  assumes "find_one c oid = Some d" and "k \<noteq> ''_id''"
  shows "\<exists>pre post. c = pre @ d # post \<and>
           update_one c oid [(k, v)] =
             (\<lparr>matched_count = 1,
               modified_count = (if map_of d k = Some v then 0 else 1)\<rparr>,
              pre @ AList.update k v d # post) \<and>
           find_one (pre @ AList.update k v d # post) oid = Some (AList.update k v d)"
proof -
  obtain pre post where c: "c = pre @ d # post" "has_id oid d" "\<forall>x\<in>set pre. \<not> has_id oid x"
    using assms(1) by (auto simp: find_one_Some_split)
  have same: "AList.update k v d = d \<longleftrightarrow> map_of d k = Some v"
  proof
    assume "AList.update k v d = d"
    then have "map_of (AList.update k v d) k = map_of d k" by simp
    then show "map_of d k = Some v" by (simp add: update_conv')
  qed (rule update_triv)
  have "has_id oid (AList.update k v d)"
    using c(2) assms(2) by (simp add: has_id_def update_conv')
  then have "find_one (pre @ AList.update k v d # post) oid = Some (AList.update k v d)"
    using c(3) by (auto simp: find_one_Some_split)
  then show ?thesis
    using c(1) update_one_append [OF c(3) c(2), of post "[(k, v)]"]
    by (rule_tac x = pre in exI, rule_tac x = post in exI) (simp add: op_set_single same)
qed

subsection \<open>Facts about requests in sequence\<close>

lemma find_one_None_ids:
  "find_one c oid = None \<longleftrightarrow> Some (POid oid) \<notin> set (map (\<lambda>d. map_of d ''_id'') c)"
  by (force simp: find_one_None_iff has_id_def)

lemma map_of_op_set_id:
  "map_of upd ''_id'' = None \<Longrightarrow> map_of (op_set upd d) ''_id'' = map_of d ''_id''"
proof -
  assume "map_of upd ''_id'' = None"
  then have "map_of (rev upd) ''_id'' = None"
    by (simp add: map_of_eq_None_iff)
  then show ?thesis
    by (simp add: map_of_op_set map_add_def)
qed

lemma ids_update_one:
  "map_of upd ''_id'' = None \<Longrightarrow>
   map (\<lambda>d. map_of d ''_id'') (snd (update_one c oid upd)) = map (\<lambda>d. map_of d ''_id'') c"
  by (induction c) (auto simp: map_of_op_set_id split: prod.splits)

lemma ids_update_one_set:
  assumes "map_of upd ''_id'' = None"
  shows "(\<lambda>d. map_of d ''_id'') ` set (snd (update_one c oid upd)) =
         (\<lambda>d. map_of d ''_id'') ` set c"
proof -
  have "set (map (\<lambda>d. map_of d ''_id'') (snd (update_one c oid upd))) =
      set (map (\<lambda>d. map_of d ''_id'') c)"
    by (simp only: ids_update_one [OF assms])
  then show ?thesis by simp
qed

lemma delete_one_cases:
  "snd (delete_one c oid) = c \<or>
   (\<exists>pre d post. c = pre @ d # post \<and> snd (delete_one c oid) = pre @ post)"
proof (cases "find_one c oid")
  case None
  then show ?thesis by (simp add: delete_one_no_match)
next
  case (Some d)
  then obtain pre post where "c = pre @ d # post" "has_id oid d" "\<forall>x\<in>set pre. \<not> has_id oid x"
    by (auto simp: find_one_Some_split)
  then show ?thesis
    using delete_one_append [of pre oid d post] by auto
qed

lemma snd_update_appointment:
  "snd (update_appointment c aid p) =
     (case ObjectId aid of Inl _ \<Rightarrow> c | Inr oid \<Rightarrow> snd (update_one c oid (dict p)))"
  by (simp add: update_appointment_def split: sum.splits prod.splits)

lemma snd_approve_appointment:
  "snd (approve_appointment c aid) =
     (case ObjectId aid of
        Inl _ \<Rightarrow> c
      | Inr oid \<Rightarrow> snd (update_one c oid [(''status'', PStr ''Approved'')]))"
  by (simp add: approve_appointment_def split: sum.splits prod.splits)

lemma snd_set_zoom_link:
  "snd (set_zoom_link c aid link) =
     (case ObjectId aid of
        Inl _ \<Rightarrow> c
      | Inr oid \<Rightarrow> snd (update_one c oid [(''zoom_link'', PStr link)]))"
  by (simp add: set_zoom_link_def split: sum.splits prod.splits)

lemma snd_delete_appointment:
  "snd (delete_appointment c aid) =
     (case ObjectId aid of Inl _ \<Rightarrow> c | Inr oid \<Rightarrow> snd (delete_one c oid))"
  by (simp add: delete_appointment_def split: sum.splits prod.splits)

lemma snd_create_appointment:
  "snd (create_appointment c new_id p) =
     (if find_one c new_id = None then c @ [dict p @ [(''_id'', POid new_id)]] else c)"
  using create_appointment_fresh [of c new_id p] create_appointment_duplicate [of c new_id p]
  by (cases "find_one c new_id") auto

lemma ids_apply_request:
  "set (map (\<lambda>d. map_of d ''_id'') (apply_request c rq)) \<subseteq>
     set (map (\<lambda>d. map_of d ''_id'') c) \<union>
     (case rq of Create new_id p \<Rightarrow> {Some (POid new_id)} | _ \<Rightarrow> {})"
proof (cases rq)
  case (Create new_id p)
  then show ?thesis
    by (auto simp: snd_create_appointment map_add_def map_of_dict_id)
next
  case (Update aid p)
  then show ?thesis
    by (simp add: snd_update_appointment ids_update_one_set map_of_dict_id split: sum.splits)
next
  case (Delete aid)
  have "set (snd (delete_one c oid)) \<subseteq> set c" for oid
    using delete_one_cases [of c oid] by auto
  then have "(\<lambda>d. map_of d ''_id'') ` set (snd (delete_one c oid))
      \<subseteq> (\<lambda>d. map_of d ''_id'') ` set c" for oid
    by blast
  then show ?thesis
    using Delete by (simp add: snd_delete_appointment split: sum.splits)
next
  case (Approve aid)
  then show ?thesis
    by (simp add: snd_approve_appointment ids_update_one_set split: sum.splits)
next
  case (SetZoomLink aid link)
  then show ?thesis
    by (simp add: snd_set_zoom_link ids_update_one_set split: sum.splits)
qed

lemma find_one_None_apply_request:
  assumes "find_one c oid = None" and "\<forall>p. rq \<noteq> Create oid p"
  shows "find_one (apply_request c rq) oid = None"
proof -
  have "Some (POid oid) \<notin> (case rq of Create new_id p \<Rightarrow> {Some (POid new_id)} | _ \<Rightarrow> {})"
    using assms(2) by (cases rq) auto
  then show ?thesis
    using assms(1) ids_apply_request [of c rq] unfolding find_one_None_ids by blast
qed

lemma find_one_None_requests:
  "find_one c oid = None \<Longrightarrow> \<forall>p. Create oid p \<notin> set rs \<Longrightarrow>
   find_one (foldl apply_request c rs) oid = None"
proof (induction rs arbitrary: c)
  case Nil
  then show ?case by simp
next
  case (Cons rq rs)
  have "find_one (apply_request c rq) oid = None"
    using Cons.prems by (intro find_one_None_apply_request) auto
  then show ?case
    using Cons.prems(2) by (simp add: Cons.IH)
qed

lemma distinct_ids_apply_request:
  assumes "distinct (map (\<lambda>d. map_of d ''_id'') c)"
  shows "distinct (map (\<lambda>d. map_of d ''_id'') (apply_request c rq))"
proof (cases rq)
  case (Create new_id p)
  then show ?thesis
    using assms
    by (auto simp: snd_create_appointment map_add_def map_of_dict_id find_one_None_ids)
next
  case (Update aid p)
  then show ?thesis
    using assms
    by (simp add: snd_update_appointment ids_update_one map_of_dict_id split: sum.splits)
next
  case (Delete aid)
  have "distinct (map (\<lambda>d. map_of d ''_id'') (snd (delete_one c oid)))" for oid
    using assms delete_one_cases [of c oid] by auto
  then show ?thesis
    using assms Delete by (simp add: snd_delete_appointment split: sum.splits)
next
  case (Approve aid)
  then show ?thesis
    using assms by (simp add: snd_approve_appointment ids_update_one split: sum.splits)
next
  case (SetZoomLink aid link)
  then show ?thesis
    using assms by (simp add: snd_set_zoom_link ids_update_one split: sum.splits)
qed

lemma distinct_ids_requests:
  "distinct (map (\<lambda>d. map_of d ''_id'') (foldl apply_request [] rs))"
proof -
  have "distinct (map (\<lambda>d. map_of d ''_id'') c) \<Longrightarrow>
      distinct (map (\<lambda>d. map_of d ''_id'') (foldl apply_request c rs))" for c
    by (induction rs arbitrary: c) (simp_all add: distinct_ids_apply_request)
  then show ?thesis by simp
qed

subsection \<open>Facts about the listing\<close>






subsection \<open>Documents that stay appointments\<close>













lemma bind_err_Inr_iff: "bind_err r f = Inr y \<longleftrightarrow> (\<exists>x. r = Inr x \<and> f x = Inr y)"
  by (cases r) (simp_all add: bind_err_def)

lemma AppointmentCreate_validate_defaults:
  assumes "AppointmentCreate_validate body = Inr p"
  shows "(map_of body ''status'' = None \<longrightarrow> status p = Some ''Pending'') \<and>
         (map_of body ''zoom_link'' = None \<longrightarrow> zoom_link p = None)"
  using assms
  by (auto simp: AppointmentCreate_validate_def bind_err_Inr_iff optional_str_field_def)

lemma create_then_get:
  assumes "length new_id = 12" and ok: "create_appointment c new_id p = (Inr a, c')"
  shows "same_fields a p \<and> get_appointment c' (id' a) = Inr a"
proof -
  let ?doc = "dict p @ [(''_id'', POid new_id)]"
  have fresh: "find_one c new_id = None"
    using ok create_appointment_duplicate [of c new_id p] by (cases "find_one c new_id") auto
  obtain a' where a': "create_appointment c new_id p = (Inr a', c @ [?doc])"
      "document_to_appointment ?doc = Inr a'" "same_fields a' p" "id' a' = str_oid new_id"
    using create_appointment_fresh [OF fresh, of p] by blast
  have eq: "a' = a" "c' = c @ [?doc]"
    using ok a'(1) by simp_all
  have "has_id new_id ?doc"
    by (simp add: has_id_def map_add_def map_of_dict_id)
  then have "find_one c' new_id = Some ?doc"
    unfolding eq using fresh by (rule find_one_snoc [rotated])
  then have "get_appointment c' (str_oid new_id) = Inr a"
    using a'(2) eq(1)
    by (simp add: get_appointment_def ObjectId_str_oid [OF assms(1)] bind_err_def
        except_404_def)
  then show ?thesis
    using a' eq by simp
qed

subsection \<open>Approve and meeting link, by cases\<close>

lemma approve_appointment_existing:
  assumes "ObjectId aid = Inr oid" and "find_one c oid = Some d"
  shows "\<exists>pre post. c = pre @ d # post \<and>
           approve_appointment c aid =
             (if map_of d ''status'' = Some (PStr ''Approved'') then Inl NotFound
              else Inr ''Appointment approved successfully'',
              pre @ AList.update ''status'' (PStr ''Approved'') d # post) \<and>
           approve_result c aid =
             Some \<lparr>matched_count = 1,
               modified_count =
                 (if map_of d ''status'' = Some (PStr ''Approved'') then 0 else 1)\<rparr> \<and>
           find_one (pre @ AList.update ''status'' (PStr ''Approved'') d # post) oid =
             Some (AList.update ''status'' (PStr ''Approved'') d)"
proof -
  obtain pre post where c: "c = pre @ d # post"
      and upd: "update_one c oid [(''status'', PStr ''Approved'')] =
        (\<lparr>matched_count = 1,
          modified_count = (if map_of d ''status'' = Some (PStr ''Approved'') then 0 else 1)\<rparr>,
         pre @ AList.update ''status'' (PStr ''Approved'') d # post)"
      and found: "find_one (pre @ AList.update ''status'' (PStr ''Approved'') d # post) oid =
        Some (AList.update ''status'' (PStr ''Approved'') d)"
    using update_one_single_field [OF assms(2), of "''status''" "PStr ''Approved''"] by auto
  have "approve_appointment c aid =
      (if map_of d ''status'' = Some (PStr ''Approved'') then Inl NotFound
       else Inr ''Appointment approved successfully'',
       pre @ AList.update ''status'' (PStr ''Approved'') d # post)"
    using assms(1) by (simp add: approve_appointment_def upd)
  moreover have "approve_result c aid =
      Some \<lparr>matched_count = 1,
        modified_count = (if map_of d ''status'' = Some (PStr ''Approved'') then 0 else 1)\<rparr>"
    using assms(1) by (simp add: approve_result_def upd)
  ultimately show ?thesis
    using c found by blast
qed

lemma approve_appointment_absent:
  assumes "\<forall>oid. ObjectId aid = Inr oid \<longrightarrow> find_one c oid = None"
  shows "approve_appointment c aid = (Inl NotFound, c)"
    and "ObjectId aid = Inl InvalidId \<or>
         map_option modified_count (approve_result c aid) = Some 0"
proof -
  show "approve_appointment c aid = (Inl NotFound, c)"
  proof (cases "ObjectId aid")
    case (Inl e)
    then show ?thesis by (simp add: approve_appointment_def)
  next
    case (Inr oid)
    then show ?thesis
      using assms by (simp add: approve_appointment_def update_one_no_match)
  qed
  show "ObjectId aid = Inl InvalidId \<or>
      map_option modified_count (approve_result c aid) = Some 0"
  proof (cases "ObjectId aid")
    case (Inl e)
    then show ?thesis using ObjectId_error [OF Inl] by simp
  next
    case (Inr oid)
    then show ?thesis
      using assms by (simp add: approve_result_def update_one_no_match)
  qed
qed



lemma find_one_cases:
  "(\<forall>oid. ObjectId aid = Inr oid \<longrightarrow> find_one c oid = None) \<or>
   (\<exists>oid d. ObjectId aid = Inr oid \<and> find_one c oid = Some d)"
  by (cases "ObjectId aid") auto




subsection \<open>The example, evaluated\<close>

lemma ObjectId_example: "ObjectId ''00000000000000000000002a'' = Inr example_id"
  by (simp add: ObjectId_def hex_val_def isspace_def example_id_def upt_rec)

lemma ObjectId_other: "ObjectId ''00000000000000000000002B'' = Inr other_id"
  by (simp add: ObjectId_def hex_val_def isspace_def other_id_def upt_rec)

lemma new_ObjectId_example: "new_ObjectId 42 = example_id"
  by (simp add: new_ObjectId_def example_id_def upt_rec)

lemma example_id_other: "example_id \<noteq> other_id"
  by (simp add: example_id_def other_id_def)

lemma ObjectId_malformed: "ObjectId ''not-an-id'' = Inl InvalidId"
  by (simp add: ObjectId_def)

lemma str_oid_example: "str_oid example_id = ''00000000000000000000002a''"
  by (simp add: str_oid_def hex_digit_def example_id_def)


lemma find_one_example: "find_one [example_doc] example_id = Some example_doc"
  by (simp add: find_one_def has_id_def example_doc_def dict_def)

lemma find_one_other: "find_one [example_doc] other_id = None"
  using example_id_other by (simp add: find_one_def has_id_def example_doc_def dict_def)

lemma validate_example: "AppointmentCreate_validate example_body = Inr example_payload"
  by (simp add: AppointmentCreate_validate_def example_body_def example_payload_def
      bind_err_def str_field_def optional_str_field_def)

lemma create_example:
  "create_appointment [] example_id example_payload = (Inr example_appointment, [example_doc])"
  by (simp add: create_appointment_def insert_one_def Let_def example_doc_def
      example_payload_def example_appointment_def dict_def optional_val_def str_oid_example
      Appointment_validate_def AppointmentCreate_validate_def bind_err_def str_field_def
      optional_str_field_def)

lemma update_example:
  "update_appointment [example_doc] ''00000000000000000000002a'' example_change =
     (Inr example_changed, [dict example_change @ [(''_id'', POid example_id)]])"
  by (simp add: update_appointment_def ObjectId_example has_id_def example_doc_def
      example_payload_def example_change_def example_changed_def dict_def optional_val_def
      op_set_def find_one_def except_404_def document_to_appointment_def str_oid_example
      Appointment_validate_def AppointmentCreate_validate_def bind_err_def str_field_def
      optional_str_field_def)

lemma approve_example:
  "approve_appointment [example_doc] ''00000000000000000000002a'' =
     (Inr ''Appointment approved successfully'',
      [AList.update ''status'' (PStr ''Approved'') example_doc])"
  by (simp add: approve_appointment_def ObjectId_example has_id_def example_doc_def
      example_payload_def dict_def optional_val_def op_set_def)


lemma delete_example:
  "delete_appointment [example_doc] ''00000000000000000000002a'' =
     (Inr ''Appointment deleted successfully'', [])"
  by (simp add: delete_appointment_def ObjectId_example has_id_def example_doc_def dict_def)

lemma find_one_approved:
  "find_one [AList.update ''status'' (PStr ''Approved'') example_doc] example_id =
     Some (AList.update ''status'' (PStr ''Approved'') example_doc)"
  by (simp add: find_one_def has_id_def example_doc_def dict_def)

lemma update_approved_example:
  "update_appointment [AList.update ''status'' (PStr ''Approved'') example_doc]
     ''00000000000000000000002a'' example_payload =
   (Inr example_appointment, [example_doc])"
  by (simp add: update_appointment_def ObjectId_example has_id_def example_doc_def
      example_payload_def example_appointment_def dict_def optional_val_def
      op_set_def find_one_def except_404_def document_to_appointment_def str_oid_example
      Appointment_validate_def AppointmentCreate_validate_def bind_err_def str_field_def
      optional_str_field_def)




lemma ObjectId_whitespace:
  "ObjectId ''00000000000000000000 2a '' = Inr [0, 0, 0, 0, 0, 0, 0, 0, 0, 0, 0x2a]"
  by (simp add: ObjectId_def hex_val_def isspace_def upt_rec)


section \<open>The claims\<close>

text \<open>
  C1. An update by identifier of an existing record replaces all eight mutable fields of
  that record by the payload's values and changes nothing else: the record keeps its
  \<open>_id\<close> and any other key it has, every other document of the collection stays as it is
  and where it is, and the record returned has the payload's field values and the
  record's identifier.
\<close>

theorem update_appointment_full_replacement:
  assumes "ObjectId appointment_id = Inr oid"
      and "find_one c oid = Some d"
      and "update_appointment c appointment_id p = (r, c')"
  shows "\<exists>d' pre post.
           c = pre @ d # post \<and> c' = pre @ d' # post \<and> find_one c' oid = Some d' \<and>
           map_of d' ''_id'' = map_of d ''_id'' \<and> map_of d' ''_id'' = Some (POid oid) \<and>
           (\<forall>k\<in>fst ` set (dict p). map_of d' k = map_of (dict p) k) \<and>
           (\<forall>k. k \<notin> fst ` set (dict p) \<longrightarrow> map_of d' k = map_of d k) \<and>
           (\<forall>a. r = Inr a \<longrightarrow> same_fields a p \<and> id' a = str_oid oid) \<and>
           (r = Inl NotFound \<or> (\<exists>a. r = Inr a))"
proof -
  let ?d' = "op_set (dict p) d"
  obtain pre post a where c: "c = pre @ d # post"
      and res: "update_appointment c appointment_id p =
        (if ?d' = d then Inl NotFound else Inr a, pre @ ?d' # post)"
      and found: "find_one (pre @ ?d' # post) oid = Some ?d'"
      and a: "same_fields a p" "id' a = str_oid oid"
    using update_appointment_existing [OF assms(1,2), of p] by blast
  have rc: "c' = pre @ ?d' # post" "r = (if ?d' = d then Inl NotFound else Inr a)"
    using res assms(3) by simp_all
  have d: "has_id oid d"
    using assms(2) by (auto simp: find_one_Some_split)
  have "map_of ?d' ''_id'' = map_of d ''_id''"
    by (simp add: map_of_op_set_dict)
  moreover have "map_of ?d' ''_id'' = Some (POid oid)"
    using d by (simp add: map_of_op_set_dict has_id_def)
  moreover have "\<forall>k\<in>fst ` set (dict p). map_of ?d' k = map_of (dict p) k"
    unfolding map_of_op_set_dict by (simp add: dict_def)
  moreover have "\<forall>k. k \<notin> fst ` set (dict p) \<longrightarrow> map_of ?d' k = map_of d k"
    unfolding map_of_op_set_dict by (simp add: dict_def)
  ultimately show ?thesis
    using c rc found a
    by (rule_tac x = "?d'" in exI, rule_tac x = pre in exI, rule_tac x = post in exI) simp
qed

theorem update_appointment_full_replacement_witness:
  "ObjectId ''00000000000000000000002a'' = Inr example_id \<and>
   find_one [example_doc] example_id = Some example_doc \<and>
   update_appointment [example_doc] ''00000000000000000000002a'' example_change =
     (Inr example_changed, [dict example_change @ [(''_id'', POid example_id)]]) \<and>
   same_fields example_changed example_change \<and>
   id' example_changed = ''00000000000000000000002a''"
proof -
  from update_appointment_full_replacement
    [OF ObjectId_example find_one_example update_example]
  have "same_fields example_changed example_change \<and> id' example_changed = str_oid example_id"
    by blast
  then show ?thesis
    by (simp add: ObjectId_example find_one_example update_example str_oid_example)
qed

text \<open>
  C2, as amended. An update by identifier fails with NotFound exactly when the identifier
  is malformed (\<open>ObjectId\<close> raises and the store is never called) or the store reports
  zero modified documents. In particular it fails with NotFound when the identifier
  resolves to no existing record, and also when every supplied value equals the value the
  record has already.
\<close>

theorem update_appointment_not_found_iff:
  "(fst (update_appointment c aid p) = Inl NotFound \<longleftrightarrow>
      ObjectId aid = Inl InvalidId \<or>
      map_option modified_count (update_result c aid p) = Some 0) \<and>
   ((\<forall>oid. ObjectId aid = Inr oid \<longrightarrow> find_one c oid = None) \<longrightarrow>
      fst (update_appointment c aid p) = Inl NotFound) \<and>
   (\<forall>oid d. ObjectId aid = Inr oid \<and> find_one c oid = Some d \<and>
      (\<forall>(k, v)\<in>set (dict p). map_of d k = Some v) \<longrightarrow>
      fst (update_appointment c aid p) = Inl NotFound)"
proof -
  have iff: "fst (update_appointment c aid p) = Inl NotFound \<longleftrightarrow>
      ObjectId aid = Inl InvalidId \<or>
      map_option modified_count (update_result c aid p) = Some 0"
  proof (cases "ObjectId aid")
    case (Inl e)
    then show ?thesis
      using ObjectId_error [OF Inl] by (simp add: update_appointment_def update_result_def)
  next
    case (Inr oid)
    show ?thesis
    proof (cases "find_one c oid")
      case None
      then show ?thesis
        using Inr by (simp add: update_appointment_def update_result_def update_one_no_match)
    next
      case (Some d)
      obtain pre post a where
        "update_one c oid (dict p) =
           (\<lparr>matched_count = 1,
             modified_count = (if op_set (dict p) d = d then 0 else 1)\<rparr>,
            pre @ op_set (dict p) d # post)"
        "update_appointment c aid p =
           (if op_set (dict p) d = d then Inl NotFound else Inr a,
            pre @ op_set (dict p) d # post)"
        using update_appointment_existing [OF Inr Some, of p] by blast
      then show ?thesis
        using Inr by (simp add: update_result_def)
    qed
  qed
  have absent: "fst (update_appointment c aid p) = Inl NotFound"
    if "\<forall>oid. ObjectId aid = Inr oid \<longrightarrow> find_one c oid = None"
    using that by (simp add: update_appointment_absent)
  have same: "fst (update_appointment c aid p) = Inl NotFound"
    if "ObjectId aid = Inr oid" "find_one c oid = Some d"
       "\<forall>(k, v)\<in>set (dict p). map_of d k = Some v" for oid d
  proof -
    have "op_set (dict p) d = d"
      using that(3) by (intro op_set_idem) auto
    then have "map_option modified_count (update_result c aid p) = Some 0"
      using that(1,2) by (simp add: update_result_def update_one_modified_count)
    then show ?thesis
      using iff by simp
  qed
  show ?thesis
    using iff absent same by blast
qed

theorem update_appointment_not_found_iff_witness:
  "ObjectId ''00000000000000000000002a'' = Inr example_id \<and>
   find_one [example_doc] example_id = Some example_doc \<and>
   fst (update_appointment [example_doc] ''00000000000000000000002a'' example_payload)
     = Inl NotFound \<and>
   find_one [example_doc] other_id = None \<and>
   fst (update_appointment [example_doc] ''00000000000000000000002B'' example_change)
     = Inl NotFound"
proof -
  have same: "\<forall>(k, v)\<in>set (dict example_payload). map_of example_doc k = Some v"
    by (simp add: example_doc_def dict_def)
  have "fst (update_appointment [example_doc] ''00000000000000000000002a'' example_payload)
      = Inl NotFound"
    using update_appointment_not_found_iff
      [of "[example_doc]" "''00000000000000000000002a''" example_payload]
      ObjectId_example find_one_example same
    by blast
  moreover have
    "fst (update_appointment [example_doc] ''00000000000000000000002B'' example_change)
      = Inl NotFound"
    using update_appointment_not_found_iff
      [of "[example_doc]" "''00000000000000000000002B''" example_change]
      ObjectId_other find_one_other
    by simp
  ultimately show ?thesis
    by (simp add: ObjectId_example find_one_example find_one_other)
qed

text \<open>
  C2, as the claim states it, fails at a malformed identifier: the update fails with
  NotFound although the store reported nothing, since it was never called.
\<close>

theorem update_appointment_malformed_id_counterexample:
  "\<not> (fst (update_appointment [example_doc] ''not-an-id'' example_change) = Inl NotFound \<longleftrightarrow>
      map_option modified_count (update_result [example_doc] ''not-an-id'' example_change)
        = Some 0)"
  by (simp add: update_appointment_def update_result_def ObjectId_malformed)

text \<open>
  C3. A create request whose body has the six required fields as strings and no status
  is accepted, and, the generated ObjectId being new to the collection, returns a record
  with the body's values, status "Pending", no meeting link when the body has none, and
  as identifier the 24 hexadecimal digits of the ObjectId, which is not empty. (A request
  body is JSON, so its meeting link is absent, null or a string, never an ObjectId.)
\<close>

theorem create_appointment_defaults:
  assumes "map_of body ''name'' = Some (PStr n)"
      and "map_of body ''email'' = Some (PStr e)"
      and "map_of body ''service'' = Some (PStr sv)"
      and "map_of body ''date'' = Some (PStr dt)"
      and "map_of body ''time'' = Some (PStr tm)"
      and "map_of body ''topic'' = Some (PStr tp)"
      and "map_of body ''status'' = None"
      and "\<And>oid. map_of body ''zoom_link'' \<noteq> Some (POid oid)"
      and "find_one c (new_ObjectId g) = None"
  shows "\<exists>p a c'. AppointmentCreate_validate body = Inr p \<and>
           create_appointment c (new_ObjectId g) p = (Inr a, c') \<and>
           name a = n \<and> email a = e \<and> service a = sv \<and> date a = dt \<and> time a = tm \<and>
           topic a = tp \<and>
           status a = Some ''Pending'' \<and>
           (map_of body ''zoom_link'' = None \<longrightarrow> zoom_link a = None) \<and>
           id' a = str_oid (new_ObjectId g) \<and> id' a \<noteq> [] \<and> length (id' a) = 24"
proof -
  obtain z where z: "optional_str_field body ''zoom_link'' None = Inr z"
      "map_of body ''zoom_link'' = None \<longrightarrow> z = None"
    using assms(8)
    by (cases "map_of body ''zoom_link''"; cases "the (map_of body ''zoom_link'')")
       (auto simp: optional_str_field_def)
  let ?p = "\<lparr>name = n, email = e, service = sv, date = dt, time = tm, topic = tp,
            status = Some ''Pending'', zoom_link = z\<rparr>"
  have p: "AppointmentCreate_validate body = Inr ?p"
    using assms(1-7) z(1)
    by (simp add: AppointmentCreate_validate_def bind_err_def str_field_def
        optional_str_field_def)
  obtain a where a: "create_appointment c (new_ObjectId g) ?p =
        (Inr a, c @ [dict ?p @ [(''_id'', POid (new_ObjectId g))]])"
      "same_fields a ?p" "id' a = str_oid (new_ObjectId g)"
    using create_appointment_fresh [OF assms(9), of ?p] by blast
  have "length (id' a) = 24"
    using length_str_oid [of "new_ObjectId g"] a(3) by (simp add: length_new_ObjectId)
  moreover from this have "id' a \<noteq> []"
    by auto
  ultimately show ?thesis
    using p a z(2) by (auto simp: same_fields_def)
qed

theorem create_appointment_defaults_witness:
  "map_of example_body ''status'' = None \<and>
   map_of example_body ''zoom_link'' = None \<and>
   new_ObjectId 42 = example_id \<and>
   find_one [] example_id = None \<and>
   AppointmentCreate_validate example_body = Inr example_payload \<and>
   create_appointment [] example_id example_payload = (Inr example_appointment, [example_doc]) \<and>
   status example_appointment = Some ''Pending'' \<and>
   zoom_link example_appointment = None \<and>
   id' example_appointment \<noteq> [] \<and>
   length (id' example_appointment) = 24"
proof -
  have body: "map_of example_body ''status'' = None" "map_of example_body ''zoom_link'' = None"
    by (simp_all add: example_body_def)
  have fresh: "find_one [] (new_ObjectId 42) = None"
    by (simp add: find_one_def)
  have "\<exists>p a c'. AppointmentCreate_validate example_body = Inr p \<and>
           create_appointment [] (new_ObjectId 42) p = (Inr a, c') \<and>
           name a = ''A'' \<and> email a = ''a@x.com'' \<and> service a = ''Consult'' \<and>
           date a = ''2024-01-01'' \<and> time a = ''10:00'' \<and> topic a = ''Intro'' \<and>
           status a = Some ''Pending'' \<and>
           (map_of example_body ''zoom_link'' = None \<longrightarrow> zoom_link a = None) \<and>
           id' a = str_oid (new_ObjectId 42) \<and> id' a \<noteq> [] \<and> length (id' a) = 24"
    by (rule create_appointment_defaults [OF _ _ _ _ _ _ body(1) _ fresh])
       (simp_all add: example_body_def)
  then have "status example_appointment = Some ''Pending'' \<and>
      zoom_link example_appointment = None \<and> id' example_appointment \<noteq> [] \<and>
      length (id' example_appointment) = 24"
    using body(2) by (auto simp: new_ObjectId_example validate_example create_example)
  then show ?thesis
    using fresh
    by (simp add: body new_ObjectId_example validate_example create_example)
qed

text \<open>
  C4. Fetching by a malformed identifier and fetching by a well-formed identifier that no
  record has both fail with the same error, HTTP 404 "Appointment not found"; and
  whatever makes a fetch fail, that is the error it fails with.
\<close>

theorem get_appointment_not_found:
  "(\<forall>e. ObjectId appointment_id = Inl e \<longrightarrow>
      get_appointment c appointment_id = Inl (HTTPException 404 ''Appointment not found'')) \<and>
   (\<forall>oid. ObjectId appointment_id = Inr oid \<and> find_one c oid = None \<longrightarrow>
      get_appointment c appointment_id = Inl (HTTPException 404 ''Appointment not found'')) \<and>
   (\<forall>e. get_appointment c appointment_id = Inl e \<longrightarrow>
      e = HTTPException 404 ''Appointment not found'')"
  by (auto simp: get_appointment_def except_404_def bind_err_def split: sum.splits)

theorem get_appointment_not_found_witness:
  "ObjectId ''not-an-id'' = Inl InvalidId \<and>
   get_appointment [example_doc] ''not-an-id''
     = Inl (HTTPException 404 ''Appointment not found'') \<and>
   ObjectId ''00000000000000000000002B'' = Inr other_id \<and>
   find_one [example_doc] other_id = None \<and>
   get_appointment [example_doc] ''00000000000000000000002B''
     = Inl (HTTPException 404 ''Appointment not found'')"
proof -
  have "get_appointment [example_doc] ''not-an-id''
      = Inl (HTTPException 404 ''Appointment not found'')"
    using get_appointment_not_found [of "''not-an-id''" "[example_doc]"] ObjectId_malformed
    by blast
  moreover have "get_appointment [example_doc] ''00000000000000000000002B''
      = Inl (HTTPException 404 ''Appointment not found'')"
    using get_appointment_not_found [of "''00000000000000000000002B''" "[example_doc]"]
      ObjectId_other find_one_other
    by blast
  ultimately show ?thesis
    using ObjectId_malformed ObjectId_other find_one_other by simp
qed

text \<open>
  C5. A create whose generated ObjectId is new to the collection succeeds; and after any
  create that succeeds, fetching by the identifier it returned gives back the very record
  that create returned, whose eight fields are the payload's.
\<close>

theorem create_then_get_roundtrip:
  "(find_one c (new_ObjectId g) = None \<longrightarrow>
      (\<exists>a c'. create_appointment c (new_ObjectId g) p = (Inr a, c'))) \<and>
   (\<forall>a c'. create_appointment c (new_ObjectId g) p = (Inr a, c') \<longrightarrow>
      same_fields a p \<and> get_appointment c' (id' a) = Inr a)"
  using create_appointment_fresh [of c "new_ObjectId g" p]
    create_then_get [OF length_new_ObjectId, of c g p]
  by blast

theorem create_then_get_roundtrip_witness:
  "new_ObjectId 42 = example_id \<and>
   find_one [] example_id = None \<and>
   create_appointment [] example_id example_payload = (Inr example_appointment, [example_doc]) \<and>
   same_fields example_appointment example_payload \<and>
   get_appointment [example_doc] ''00000000000000000000002a'' = Inr example_appointment"
proof -
  have "same_fields example_appointment example_payload \<and>
      get_appointment [example_doc] (id' example_appointment) = Inr example_appointment"
    using create_then_get_roundtrip [of "[]" 42 example_payload] create_example
    unfolding new_ObjectId_example by blast
  then show ?thesis
    by (simp add: new_ObjectId_example create_example find_one_def)
       (simp add: example_appointment_def)
qed

text \<open>
  C6, as amended. Approving an existing record leaves the collection as it was except for
  that record, whose status is "Approved" afterwards and whose every other key, \<open>_id\<close>
  included, has the value it had. For every approve request, the NotFound behaviour is
  Update's: the request fails with NotFound exactly when the identifier is malformed
  (\<open>ObjectId\<close> raises and the store is never called) or the store reports zero modified
  documents. In particular it fails with NotFound, leaving the collection unchanged, when
  no record has the identifier, and for an existing record it fails exactly when the
  status was "Approved" already. A request that does not fail answers with the success
  message.
\<close>

theorem approve_appointment_sets_status:
  "(\<forall>oid d r c'. ObjectId appointment_id = Inr oid \<and> find_one c oid = Some d \<and>
       approve_appointment c appointment_id = (r, c') \<longrightarrow>
      (\<exists>d' pre post.
         c = pre @ d # post \<and> c' = pre @ d' # post \<and> find_one c' oid = Some d' \<and>
         map_of d' ''status'' = Some (PStr ''Approved'') \<and>
         (\<forall>k. k \<noteq> ''status'' \<longrightarrow> map_of d' k = map_of d k) \<and>
         (r = Inl NotFound \<longleftrightarrow> map_of d ''status'' = Some (PStr ''Approved'')))) \<and>
   (fst (approve_appointment c appointment_id) = Inl NotFound \<longleftrightarrow>
      ObjectId appointment_id = Inl InvalidId \<or>
      map_option modified_count (approve_result c appointment_id) = Some 0) \<and>
   ((\<forall>oid. ObjectId appointment_id = Inr oid \<longrightarrow> find_one c oid = None) \<longrightarrow>
      approve_appointment c appointment_id = (Inl NotFound, c)) \<and>
   (fst (approve_appointment c appointment_id) = Inl NotFound \<or>
    fst (approve_appointment c appointment_id) = Inr ''Appointment approved successfully'')"
proof -
  have frame: "\<exists>d' pre post.
         c = pre @ d # post \<and> c' = pre @ d' # post \<and> find_one c' oid = Some d' \<and>
         map_of d' ''status'' = Some (PStr ''Approved'') \<and>
         (\<forall>k. k \<noteq> ''status'' \<longrightarrow> map_of d' k = map_of d k) \<and>
         (r = Inl NotFound \<longleftrightarrow> map_of d ''status'' = Some (PStr ''Approved''))"
    if h: "ObjectId appointment_id = Inr oid \<and> find_one c oid = Some d \<and>
       approve_appointment c appointment_id = (r, c')" for oid d r c'
  proof -
    let ?d' = "AList.update ''status'' (PStr ''Approved'') d"
    obtain pre post where c: "c = pre @ d # post"
        and res: "approve_appointment c appointment_id =
          (if map_of d ''status'' = Some (PStr ''Approved'') then Inl NotFound
           else Inr ''Appointment approved successfully'', pre @ ?d' # post)"
        and found: "find_one (pre @ ?d' # post) oid = Some ?d'"
      using approve_appointment_existing [of appointment_id oid c d] h by blast
    have rc: "c' = pre @ ?d' # post"
        "r = (if map_of d ''status'' = Some (PStr ''Approved'') then Inl NotFound
              else Inr ''Appointment approved successfully'')"
      using res h by simp_all
    have "map_of ?d' ''status'' = Some (PStr ''Approved'')"
      by (simp add: update_conv')
    moreover have "\<forall>k. k \<noteq> ''status'' \<longrightarrow> map_of ?d' k = map_of d k"
      by (simp add: update_conv')
    ultimately show ?thesis
      using c rc found
      by (rule_tac x = "?d'" in exI, rule_tac x = pre in exI, rule_tac x = post in exI) simp
  qed
  have absent: "approve_appointment c appointment_id = (Inl NotFound, c)"
    if "\<forall>oid. ObjectId appointment_id = Inr oid \<longrightarrow> find_one c oid = None"
    using that by (rule approve_appointment_absent(1))
  have iff: "fst (approve_appointment c appointment_id) = Inl NotFound \<longleftrightarrow>
      ObjectId appointment_id = Inl InvalidId \<or>
      map_option modified_count (approve_result c appointment_id) = Some 0"
    and either: "fst (approve_appointment c appointment_id) = Inl NotFound \<or>
      fst (approve_appointment c appointment_id) = Inr ''Appointment approved successfully''"
  proof -
    consider (none) "\<forall>oid. ObjectId appointment_id = Inr oid \<longrightarrow> find_one c oid = None"
      | (some) oid d where "ObjectId appointment_id = Inr oid" "find_one c oid = Some d"
      using find_one_cases [of appointment_id c] by blast
    then have "(fst (approve_appointment c appointment_id) = Inl NotFound \<longleftrightarrow>
        ObjectId appointment_id = Inl InvalidId \<or>
        map_option modified_count (approve_result c appointment_id) = Some 0) \<and>
      (fst (approve_appointment c appointment_id) = Inl NotFound \<or>
       fst (approve_appointment c appointment_id) = Inr ''Appointment approved successfully'')"
    proof cases
      case none
      then show ?thesis
        using approve_appointment_absent [OF none] by simp
    next
      case some
      obtain pre post where
        "approve_appointment c appointment_id =
          (if map_of d ''status'' = Some (PStr ''Approved'') then Inl NotFound
           else Inr ''Appointment approved successfully'',
           pre @ AList.update ''status'' (PStr ''Approved'') d # post)"
        "approve_result c appointment_id =
          Some \<lparr>matched_count = 1,
            modified_count =
              (if map_of d ''status'' = Some (PStr ''Approved'') then 0 else 1)\<rparr>"
        using approve_appointment_existing [OF some] by blast
      then show ?thesis
        using some(1) by simp
    qed
    then show "fst (approve_appointment c appointment_id) = Inl NotFound \<longleftrightarrow>
        ObjectId appointment_id = Inl InvalidId \<or>
        map_option modified_count (approve_result c appointment_id) = Some 0"
      and "fst (approve_appointment c appointment_id) = Inl NotFound \<or>
        fst (approve_appointment c appointment_id) = Inr ''Appointment approved successfully''"
      by blast+
  qed
  show ?thesis
  proof (intro conjI allI impI)
    fix oid d r c'
    assume "ObjectId appointment_id = Inr oid \<and> find_one c oid = Some d \<and>
       approve_appointment c appointment_id = (r, c')"
    then show "\<exists>d' pre post.
         c = pre @ d # post \<and> c' = pre @ d' # post \<and> find_one c' oid = Some d' \<and>
         map_of d' ''status'' = Some (PStr ''Approved'') \<and>
         (\<forall>k. k \<noteq> ''status'' \<longrightarrow> map_of d' k = map_of d k) \<and>
         (r = Inl NotFound \<longleftrightarrow> map_of d ''status'' = Some (PStr ''Approved''))"
      by (rule frame)
  next
    show "fst (approve_appointment c appointment_id) = Inl NotFound \<longleftrightarrow>
        ObjectId appointment_id = Inl InvalidId \<or>
        map_option modified_count (approve_result c appointment_id) = Some 0"
      by (rule iff)
  next
    assume "\<forall>oid. ObjectId appointment_id = Inr oid \<longrightarrow> find_one c oid = None"
    then show "approve_appointment c appointment_id = (Inl NotFound, c)"
      by (rule absent)
  next
    show "fst (approve_appointment c appointment_id) = Inl NotFound \<or>
      fst (approve_appointment c appointment_id) = Inr ''Appointment approved successfully''"
      by (rule either)
  qed
qed

theorem approve_appointment_sets_status_witness:
  "ObjectId ''00000000000000000000002a'' = Inr example_id \<and>
   find_one [example_doc] example_id = Some example_doc \<and>
   map_of example_doc ''status'' = Some (PStr ''Pending'') \<and>
   approve_appointment [example_doc] ''00000000000000000000002a'' =
     (Inr ''Appointment approved successfully'',
      [AList.update ''status'' (PStr ''Approved'') example_doc]) \<and>
   map_of (AList.update ''status'' (PStr ''Approved'') example_doc) ''status''
     = Some (PStr ''Approved'') \<and>
   map_of (AList.update ''status'' (PStr ''Approved'') example_doc) ''name''
     = map_of example_doc ''name'' \<and>
   find_one [example_doc] other_id = None \<and>
   approve_appointment [example_doc] ''00000000000000000000002B'' = (Inl NotFound, [example_doc]) \<and>
   ObjectId ''not-an-id'' = Inl InvalidId \<and>
   fst (approve_appointment [example_doc] ''not-an-id'') = Inl NotFound"
proof -
  let ?d = "AList.update ''status'' (PStr ''Approved'') example_doc"
  note at_a = approve_appointment_sets_status
    [where c = "[example_doc]" and appointment_id = "''00000000000000000000002a''"]
  note at_b = approve_appointment_sets_status
    [where c = "[example_doc]" and appointment_id = "''00000000000000000000002B''"]
  note at_c = approve_appointment_sets_status
    [where c = "[example_doc]" and appointment_id = "''not-an-id''"]
  have hyp: "ObjectId ''00000000000000000000002a'' = Inr example_id \<and>
      find_one [example_doc] example_id = Some example_doc \<and>
      approve_appointment [example_doc] ''00000000000000000000002a'' =
        (Inr ''Appointment approved successfully'', [?d])"
    by (intro conjI ObjectId_example find_one_example approve_example)
  obtain d' where d': "find_one [?d] example_id = Some d'"
      "map_of d' ''status'' = Some (PStr ''Approved'')"
      "\<forall>k. k \<noteq> ''status'' \<longrightarrow> map_of d' k = map_of example_doc k"
    using conjunct1 [OF at_a, THEN spec, THEN spec, THEN spec, THEN spec, THEN mp, OF hyp]
    by blast
  have "find_one [?d] example_id = Some ?d"
    by (simp add: find_one_def has_id_def example_doc_def dict_def)
  then have same: "d' = ?d"
    using d'(1) by simp
  have s1: "map_of ?d ''status'' = Some (PStr ''Approved'')"
    using d'(2) unfolding same .
  have s2: "map_of ?d ''name'' = map_of example_doc ''name''"
    using d'(3) unfolding same by simp
  have s0: "map_of example_doc ''status'' = Some (PStr ''Pending'')"
    by (simp add: example_doc_def example_payload_def dict_def optional_val_def)
  have absent: "\<forall>oid. ObjectId ''00000000000000000000002B'' = Inr oid \<longrightarrow>
      find_one [example_doc] oid = None"
    by (simp add: ObjectId_other find_one_other)
  have b: "approve_appointment [example_doc] ''00000000000000000000002B''
      = (Inl NotFound, [example_doc])"
    using at_b [THEN conjunct2, THEN conjunct2, THEN conjunct1, THEN mp, OF absent] .
  have c: "fst (approve_appointment [example_doc] ''not-an-id'') = Inl NotFound"
    using at_c [THEN conjunct2, THEN conjunct1, THEN iffD2, OF disjI1, OF ObjectId_malformed] .
  show ?thesis
    by (intro conjI ObjectId_example find_one_example s0 approve_example s1 s2
        find_one_other b ObjectId_malformed c)
qed

text \<open>
  C6, as the claim states the NotFound behaviour, fails at a malformed identifier: the
  request fails with NotFound although the store reported nothing.
\<close>

theorem approve_appointment_malformed_id_counterexample:
  "\<not> (fst (approve_appointment [example_doc] ''not-an-id'') = Inl NotFound \<longleftrightarrow>
      map_option modified_count (approve_result [example_doc] ''not-an-id'') = Some 0)"
  by (simp add: approve_appointment_def approve_result_def ObjectId_malformed)




text \<open>
  C8. In a collection whose documents have distinct \<open>_id\<close>s, deleting by the identifier
  of an existing record removes that record and nothing else, and from then on every fetch
  by an identifier of that ObjectId fails with NotFound, whatever requests follow, as long
  as none of them creates a record under that ObjectId again. When the identifier is
  malformed or matches no record, the delete fails with NotFound and the collection is
  unchanged.
\<close>

theorem delete_appointment_then_get:
  "(\<forall>oid d. distinct (map (\<lambda>x. map_of x ''_id'') c) \<and>
       ObjectId appointment_id = Inr oid \<and> find_one c oid = Some d \<longrightarrow>
      (\<exists>pre post. c = pre @ d # post \<and>
         delete_appointment c appointment_id =
           (Inr ''Appointment deleted successfully'', pre @ post) \<and>
         find_one (pre @ post) oid = None \<and>
         (\<forall>rs s. (\<forall>p. Create oid p \<notin> set rs) \<and> ObjectId s = Inr oid \<longrightarrow>
            get_appointment (foldl apply_request (pre @ post) rs) s = Inl NotFound))) \<and>
   ((\<forall>oid. ObjectId appointment_id = Inr oid \<longrightarrow> find_one c oid = None) \<longrightarrow>
      delete_appointment c appointment_id = (Inl NotFound, c))"
proof -
  have removed: "\<exists>pre post. c = pre @ d # post \<and>
         delete_appointment c appointment_id =
           (Inr ''Appointment deleted successfully'', pre @ post) \<and>
         find_one (pre @ post) oid = None \<and>
         (\<forall>rs s. (\<forall>p. Create oid p \<notin> set rs) \<and> ObjectId s = Inr oid \<longrightarrow>
            get_appointment (foldl apply_request (pre @ post) rs) s = Inl NotFound)"
    if uniq: "distinct (map (\<lambda>x. map_of x ''_id'') c)"
      and oid: "ObjectId appointment_id = Inr oid" and d: "find_one c oid = Some d" for oid d
  proof -
    obtain pre post where c: "c = pre @ d # post" "has_id oid d"
        "\<forall>x\<in>set pre. \<not> has_id oid x"
      using d by (auto simp: find_one_Some_split)
    have del: "delete_appointment c appointment_id =
        (Inr ''Appointment deleted successfully'', pre @ post)"
      using oid by (simp add: delete_appointment_def c(1) delete_one_append [OF c(3) c(2)])
    have "map_of d ''_id'' \<notin> (\<lambda>x. map_of x ''_id'') ` (set pre \<union> set post)"
      using uniq unfolding c(1) by auto
    then have "\<forall>x\<in>set (pre @ post). \<not> has_id oid x"
      using c(2) by (force simp: has_id_def)
    then have gone: "find_one (pre @ post) oid = None"
      by (simp only: find_one_None_iff)
    have "get_appointment (foldl apply_request (pre @ post) rs) s = Inl NotFound"
      if "\<forall>p. Create oid p \<notin> set rs" "ObjectId s = Inr oid" for rs s
      using find_one_None_requests [OF gone that(1)] that(2)
      by (simp add: get_appointment_def bind_err_def except_404_def)
    then show ?thesis
      using c(1) del gone by blast
  qed
  have unmatched: "delete_appointment c appointment_id = (Inl NotFound, c)"
    if "\<forall>oid. ObjectId appointment_id = Inr oid \<longrightarrow> find_one c oid = None"
  proof (cases "ObjectId appointment_id")
    case (Inl e)
    then show ?thesis by (simp add: delete_appointment_def)
  next
    case (Inr oid)
    then show ?thesis
      using that by (simp add: delete_appointment_def delete_one_no_match)
  qed
  show ?thesis
  proof (intro conjI allI impI)
    fix oid d
    assume "distinct (map (\<lambda>x. map_of x ''_id'') c) \<and>
       ObjectId appointment_id = Inr oid \<and> find_one c oid = Some d"
    then show "\<exists>pre post. c = pre @ d # post \<and>
         delete_appointment c appointment_id =
           (Inr ''Appointment deleted successfully'', pre @ post) \<and>
         find_one (pre @ post) oid = None \<and>
         (\<forall>rs s. (\<forall>p. Create oid p \<notin> set rs) \<and> ObjectId s = Inr oid \<longrightarrow>
            get_appointment (foldl apply_request (pre @ post) rs) s = Inl NotFound)"
      using removed [of oid d] by simp
  next
    assume "\<forall>oid. ObjectId appointment_id = Inr oid \<longrightarrow> find_one c oid = None"
    with unmatched show "delete_appointment c appointment_id = (Inl NotFound, c)"
      by simp
  qed
qed

theorem delete_appointment_then_get_witness:
  "distinct (map (\<lambda>x. map_of x ''_id'') [example_doc]) \<and>
   ObjectId ''00000000000000000000002a'' = Inr example_id \<and>
   find_one [example_doc] example_id = Some example_doc \<and>
   delete_appointment [example_doc] ''00000000000000000000002a'' =
     (Inr ''Appointment deleted successfully'', []) \<and>
   get_appointment [] ''00000000000000000000002a'' = Inl NotFound \<and>
   get_appointment
     (foldl apply_request [] [Create other_id example_change, Approve ''00000000000000000000002a''])
     ''00000000000000000000002a'' = Inl NotFound \<and>
   find_one [example_doc] other_id = None \<and>
   delete_appointment [example_doc] ''00000000000000000000002B'' = (Inl NotFound, [example_doc])"
proof -
  note del_a = delete_appointment_then_get
    [where c = "[example_doc]" and appointment_id = "''00000000000000000000002a''"]
  note del_b = delete_appointment_then_get
    [where c = "[example_doc]" and appointment_id = "''00000000000000000000002B''"]
  have uniq: "distinct (map (\<lambda>x. map_of x ''_id'') [example_doc])"
    by simp
  have hyp: "distinct (map (\<lambda>x. map_of x ''_id'') [example_doc]) \<and>
      ObjectId ''00000000000000000000002a'' = Inr example_id \<and>
      find_one [example_doc] example_id = Some example_doc"
    by (intro conjI uniq ObjectId_example find_one_example)
  obtain pre post where
    p2: "delete_appointment [example_doc] ''00000000000000000000002a'' =
           (Inr ''Appointment deleted successfully'', pre @ post)" and
    p4: "\<forall>rs s. (\<forall>p. Create example_id p \<notin> set rs) \<and> ObjectId s = Inr example_id \<longrightarrow>
           get_appointment (foldl apply_request (pre @ post) rs) s = Inl NotFound"
    using conjunct1 [OF del_a, THEN spec, THEN spec, THEN mp, OF hyp] by blast
  have empty: "pre @ post = []"
    using p2 unfolding delete_example by simp
  have none: "(\<forall>p. Create example_id p \<notin> set []) \<and> ObjectId ''00000000000000000000002a'' = Inr example_id"
    by (simp add: ObjectId_example)
  have later: "(\<forall>p. Create example_id p \<notin>
        set [Create other_id example_change, Approve ''00000000000000000000002a'']) \<and>
      ObjectId ''00000000000000000000002a'' = Inr example_id"
    using example_id_other by (simp add: ObjectId_example)
  have g1: "get_appointment [] ''00000000000000000000002a'' = Inl NotFound"
    using p4 [THEN spec, THEN spec, THEN mp, OF none] unfolding empty by simp
  have g2: "get_appointment
      (foldl apply_request [] [Create other_id example_change, Approve ''00000000000000000000002a''])
      ''00000000000000000000002a'' = Inl NotFound"
    using p4 [THEN spec, THEN spec, THEN mp, OF later] unfolding empty .
  have absent: "\<forall>oid. ObjectId ''00000000000000000000002B'' = Inr oid \<longrightarrow>
      find_one [example_doc] oid = None"
    by (simp add: ObjectId_other find_one_other)
  have d2: "delete_appointment [example_doc] ''00000000000000000000002B''
      = (Inl NotFound, [example_doc])"
    using conjunct2 [OF del_b, THEN mp, OF absent] .
  show ?thesis
    by (intro conjI uniq ObjectId_example find_one_example delete_example g1 g2
        find_one_other d2)
qed




text \<open>
  C10. An update whose body omits status stores status "Pending" in the record, and one
  whose body omits the meeting link stores null, whatever the record had: the body is
  validated first, which fills in the defaults, and the update then writes all eight
  fields.
\<close>

theorem update_appointment_omitted_fields_reset:
  assumes "AppointmentCreate_validate body = Inr p"
      and "ObjectId appointment_id = Inr oid"
      and "find_one c oid = Some d"
      and "update_appointment c appointment_id p = (r, c')"
  shows "\<exists>d'. find_one c' oid = Some d' \<and>
           (map_of body ''status'' = None \<longrightarrow>
              status p = Some ''Pending'' \<and>
              map_of d' ''status'' = Some (PStr ''Pending'') \<and>
              (\<forall>a. r = Inr a \<longrightarrow> status a = Some ''Pending'')) \<and>
           (map_of body ''zoom_link'' = None \<longrightarrow>
              zoom_link p = None \<and>
              map_of d' ''zoom_link'' = Some PNone \<and>
              (\<forall>a. r = Inr a \<longrightarrow> zoom_link a = None))"
proof -
  let ?d' = "op_set (dict p) d"
  obtain pre post a where
      res: "update_appointment c appointment_id p =
        (if ?d' = d then Inl NotFound else Inr a, pre @ ?d' # post)"
      and found: "find_one (pre @ ?d' # post) oid = Some ?d'"
      and a: "same_fields a p"
    using update_appointment_existing [OF assms(2,3), of p] by blast
  have rc: "c' = pre @ ?d' # post" "r = (if ?d' = d then Inl NotFound else Inr a)"
    using res assms(4) by simp_all
  have dflt: "map_of body ''status'' = None \<longrightarrow> status p = Some ''Pending''"
      "map_of body ''zoom_link'' = None \<longrightarrow> zoom_link p = None"
    using AppointmentCreate_validate_defaults [OF assms(1)] by simp_all
  have stored: "map_of ?d' ''status'' = Some (optional_val (status p))"
      "map_of ?d' ''zoom_link'' = Some (optional_val (zoom_link p))"
    by (simp_all add: map_of_op_set_dict)
  have returned: "\<forall>a'. r = Inr a' \<longrightarrow> status a' = status p \<and> zoom_link a' = zoom_link p"
    using rc(2) a by (auto simp: same_fields_def split: if_splits)
  show ?thesis
    using found dflt stored returned unfolding rc(1)
    by (rule_tac x = "?d'" in exI) (auto simp: optional_val_def)
qed

theorem update_appointment_omitted_fields_reset_witness:
  "AppointmentCreate_validate example_body = Inr example_payload \<and>
   map_of example_body ''status'' = None \<and>
   ObjectId ''00000000000000000000002a'' = Inr example_id \<and>
   find_one [AList.update ''status'' (PStr ''Approved'') example_doc] example_id =
     Some (AList.update ''status'' (PStr ''Approved'') example_doc) \<and>
   map_of (AList.update ''status'' (PStr ''Approved'') example_doc) ''status''
     = Some (PStr ''Approved'') \<and>
   update_appointment [AList.update ''status'' (PStr ''Approved'') example_doc]
     ''00000000000000000000002a'' example_payload = (Inr example_appointment, [example_doc]) \<and>
   map_of example_doc ''status'' = Some (PStr ''Pending'') \<and>
   status example_appointment = Some ''Pending''"
proof -
  have body: "map_of example_body ''status'' = None"
    by (simp add: example_body_def)
  from update_appointment_omitted_fields_reset
    [OF validate_example ObjectId_example find_one_approved update_approved_example]
  obtain d' where d': "find_one [example_doc] example_id = Some d'"
      "map_of d' ''status'' = Some (PStr ''Pending'')"
      "\<forall>a. Inr example_appointment = Inr a \<longrightarrow> status a = Some ''Pending''"
    using body by blast
  have "d' = example_doc"
    using d'(1) by (simp add: find_one_example)
  then have "map_of example_doc ''status'' = Some (PStr ''Pending'')"
    using d'(2) by simp
  moreover have "status example_appointment = Some ''Pending''"
    using d'(3) by simp
  moreover have "map_of (AList.update ''status'' (PStr ''Approved'') example_doc) ''status''
      = Some (PStr ''Approved'')"
    by (simp add: update_conv')
  ultimately show ?thesis
    using body validate_example ObjectId_example find_one_approved update_approved_example
    by simp
qed

end
